theory Spec2Isabelle
  imports Complex_Main "HOL-Library.AList"
begin

section \<open>JavaScript values\<close>

text \<open>
  The handlers of \<^verbatim>\<open>background.ts\<close> take \<^verbatim>\<open>any\<close>: a message payload or the
  result of \<^verbatim>\<open>JSON.parse\<close>. A value is one of the JSON shapes or \<^verbatim>\<open>undefined\<close>.
  An object is its list of own properties; the first binding of a name is the one read.
\<close>

datatype jsval =
    JUndefined
  | JNull
  | JBool bool
  | JNum real
  | JStr string
  | JArr "jsval list"
  | JObj "(string \<times> jsval) list"

type_synonym jsobj = "(string \<times> jsval) list"

text \<open>
  What a \<^verbatim>\<open>throw\<close> carries: an \<^verbatim>\<open>Error\<close> instance (constructor name and
  message), or any other value (its \<^verbatim>\<open>typeof\<close> and its \<^verbatim>\<open>String(...)\<close> form).
\<close>

datatype thrown =
    ErrorObj string string
  | NonError string string

text \<open>\<^verbatim>\<open>error instanceof Error ? error.message : 'Unknown error'\<close>\<close>

fun error_message :: "thrown \<Rightarrow> string" where
  "error_message (ErrorObj n m) = m"
| "error_message (NonError t s) = ''Unknown error''"

text \<open>JavaScript truthiness, as \<^verbatim>\<open>if (x)\<close>, \<^verbatim>\<open>!x\<close> and \<^verbatim>\<open>a && b\<close> test it.\<close>

fun truthy :: "jsval \<Rightarrow> bool" where
  "truthy JUndefined = False"
| "truthy JNull = False"
| "truthy (JBool b) = b"
| "truthy (JNum r) = (r \<noteq> 0)"
| "truthy (JStr s) = (s \<noteq> [])"
| "truthy (JArr xs) = True"
| "truthy (JObj kvs) = True"

fun typeof :: "jsval \<Rightarrow> string" where
  "typeof JUndefined = ''undefined''"
| "typeof JNull = ''object''"
| "typeof (JBool b) = ''boolean''"
| "typeof (JNum r) = ''number''"
| "typeof (JStr s) = ''string''"
| "typeof (JArr xs) = ''object''"
| "typeof (JObj kvs) = ''object''"

fun isArray :: "jsval \<Rightarrow> bool" where
  "isArray (JArr xs) = True"
| "isArray v = False"

fun elements :: "jsval \<Rightarrow> jsval list" where
  "elements (JArr xs) = xs"
| "elements v = []"

fun nullish :: "jsval \<Rightarrow> bool" where
  "nullish JUndefined = True"
| "nullish JNull = True"
| "nullish v = False"

text \<open>
  The property read \<^verbatim>\<open>v.name\<close> on a value that is neither \<^verbatim>\<open>null\<close> nor
  \<^verbatim>\<open>undefined\<close>. The names this program reads (\<^verbatim>\<open>id\<close>, \<^verbatim>\<open>url\<close>,
  \<^verbatim>\<open>title\<close>, ...) are no properties of a string, number, boolean or array, so the
  read gives \<^verbatim>\<open>undefined\<close> there.
\<close>

fun js_get :: "jsval \<Rightarrow> string \<Rightarrow> jsval" where
  "js_get (JObj kvs) name = (case map_of kvs name of Some v \<Rightarrow> v | None \<Rightarrow> JUndefined)"
| "js_get v name = JUndefined"

text \<open>
  The same read on \<^verbatim>\<open>null\<close> or \<^verbatim>\<open>undefined\<close> throws a \<^verbatim>\<open>TypeError\<close>
  (the wording of the message is V8's).
\<close>

definition nullish_read :: "jsval \<Rightarrow> string \<Rightarrow> thrown" where
  "nullish_read v name =
     ErrorObj ''TypeError''
       (''Cannot read properties of '' @ (if v = JNull then ''null'' else ''undefined'')
          @ '' (reading '' @ [CHR 0x27] @ name @ [CHR 0x27] @ '')'')"

text \<open>Decimal digits of a number, as a template literal prints a count.\<close>

fun show_nat :: "nat \<Rightarrow> string" where
  "show_nat n =
     (if n < 10 then [''0123456789'' ! n]
      else show_nat (n div 10) @ [''0123456789'' ! (n mod 10)])"

declare show_nat.simps [simp del]

text \<open>
  The own enumerable properties an object spread \<^verbatim>\<open>{...v}\<close> copies: those of an
  object, the indices of an array or of a string, nothing for the other values.
\<close>

fun spread :: "jsval \<Rightarrow> jsobj" where
  "spread (JObj kvs) = kvs"
| "spread (JArr xs) = zip (map show_nat [0..<length xs]) xs"
| "spread (JStr s) = zip (map show_nat [0..<length s]) (map (\<lambda>c. JStr [c]) s)"
| "spread v = []"

section \<open>Responses\<close>

text \<open>
  The object handed to \<^verbatim>\<open>sendResponse\<close>. A field the object literal does not
  mention is \<open>None\<close>.
\<close>

record response =
  success :: bool
  message :: "string option"
  error :: "string option"
  needsManualPaste :: "bool option"
  debugInfo :: "jsobj option"
  videosAdded :: "nat option"
  videosUpdated :: "nat option"
  video :: "jsobj option"
  videos :: "jsobj list option"
  clip_text :: "string option"

definition reply :: "bool \<Rightarrow> response" where
  "reply ok = \<lparr> success = ok, message = None, error = None, needsManualPaste = None,
     debugInfo = None, videosAdded = None, videosUpdated = None, video = None,
     videos = None, clip_text = None \<rparr>"

text \<open>\<^verbatim>\<open>{ success: false, error: ... }\<close>\<close>

definition failure :: "string \<Rightarrow> response" where
  "failure msg = (reply False)\<lparr> error := Some msg \<rparr>"

section \<open>The platform and the world\<close>

text \<open>
  What the browser answers to the calls the handlers make. These are no code of the
  extension, so each is a parameter: a call that may throw answers \<open>Inl\<close>.
\<close>

record tab =
  tab_id :: "int option"
  tab_url :: "string option"

text \<open>What a clipboard reader answers: \<^verbatim>\<open>{ success, text? }\<close>.\<close>

record clip_result =
  cr_success :: bool
  cr_text :: "string option"

record platform =
  runtime_id :: string
  tabs_query :: "thrown + tab list"
  executeScript :: "int \<Rightarrow> thrown + clip_result option list"
  tabs_sendMessage :: "int \<Rightarrow> thrown + clip_result option"
  clipboard_readText :: "thrown + string"
  content_clipboard :: "(thrown + string) option"
  JSON_parse :: "string \<Rightarrow> jsval option"
  encodeURIComponent :: "jsval \<Rightarrow> thrown + string"
  tabs_create :: "string \<Rightarrow> thrown option"
  clock :: "nat \<Rightarrow> string"

text \<open>
  The state the privileged context changes: the records of the store in insertion
  order, each under its id; the storage faults still to come (the head is the outcome of
  the next store operation, \<open>Some e\<close> when it fails with \<open>e\<close>, and an empty list is a
  healthy store); the number of clock readings taken so far; the tabs opened.
\<close>

record world =
  rows :: "(string \<times> jsobj) list"
  faults :: "thrown option list"
  ticks :: nat
  opened_tabs :: "string list"

text \<open>\<^verbatim>\<open>new Date().toISOString()\<close>: the next reading of the clock.\<close>

definition now :: "platform \<Rightarrow> world \<Rightarrow> string \<times> world" where
  "now env w = (clock env (ticks w), w\<lparr> ticks := Suc (ticks w) \<rparr>)"

section \<open>The catalog service\<close>

text \<open>
  \<^verbatim>\<open>background.ts\<close> imports \<^verbatim>\<open>dbService\<close> from \<^verbatim>\<open>@/services/db.service\<close>, which
  is not among the sources. What the handlers call of it is modelled from sections 4.1,
  4.2 and 7 of the spec.
\<close>

text \<open>
  Modelled from the spec: the storage layer of \<^verbatim>\<open>db.service\<close> is missing. \<open>Storage-layer
  failure (I/O, quota, corruption) surfaces as a StorageError; no automatic retry at this
  layer\<close>: each operation of the store first takes the next pending fault, if there is
  one, and fails with it.
\<close>

definition take_fault :: "world \<Rightarrow> thrown option \<times> world" where
  "take_fault w =
     (case faults w of
        [] \<Rightarrow> (None, w)
      | f # fs \<Rightarrow> (f, w\<lparr> faults := fs \<rparr>))"

text \<open>
  Modelled from the spec: the error of \<^verbatim>\<open>db.service\<close> for a record or lookup without a
  usable key is missing. The \<^verbatim>\<open>id\<close> is a string and the primary key; \<open>a failure
  reconciling one descriptor (e.g., missing id)\<close> is an error thrown by the store.
\<close>

definition invalid_key :: thrown where
  "invalid_key = ErrorObj ''DataError'' ''No valid key was provided''"

text \<open>
  Modelled from the spec: \<^verbatim>\<open>dbService.getVideo\<close> is missing.
  \<open>\<^verbatim>\<open>get(id) -> VideoRecord | absent\<close>\<close>; \<^verbatim>\<open>getVideo(id)\<close> delegates directly to the
  store.
\<close>

definition getVideo :: "jsval \<Rightarrow> world \<Rightarrow> (thrown + jsobj option) \<times> world" where
  "getVideo key w =
     (case take_fault w of
        (Some e, w') \<Rightarrow> (Inl e, w')
      | (None, w') \<Rightarrow>
          (case key of
             JStr k \<Rightarrow> (Inr (map_of (rows w') k), w')
           | _ \<Rightarrow> (Inl invalid_key, w')))"

text \<open>
  Modelled from the spec: the write of \<^verbatim>\<open>db.service\<close> is missing.
  \<open>\<^verbatim>\<open>put(record)\<close> (unconditional insert-or-replace keyed by id)\<close>: a record that is
  already there is replaced in its place, a new one comes last.
\<close>

definition put :: "jsval \<Rightarrow> world \<Rightarrow> (thrown + unit) \<times> world" where
  "put v w =
     (case take_fault w of
        (Some e, w') \<Rightarrow> (Inl e, w')
      | (None, w') \<Rightarrow>
          (case v of
             JObj kvs \<Rightarrow>
               (case map_of kvs ''id'' of
                  Some (JStr k) \<Rightarrow> (Inr (), w'\<lparr> rows := AList.update k kvs (rows w') \<rparr>)
                | _ \<Rightarrow> (Inl invalid_key, w'))
           | _ \<Rightarrow> (Inl invalid_key, w')))"

text \<open>
  Modelled from the spec: \<^verbatim>\<open>dbService.addVideo\<close> is missing. \<open>Implemented as
  \<^verbatim>\<open>put\<close>; if a record with the same id already exists it is silently overwritten.\<close>
\<close>

definition addVideo :: "jsval \<Rightarrow> world \<Rightarrow> (thrown + unit) \<times> world" where
  "addVideo v w = put v w"

text \<open>
  Modelled from the spec: \<^verbatim>\<open>dbService.updateVideo\<close> is missing. \<open>Implemented
  identically to \<^verbatim>\<open>addVideo\<close> -- both are upserts.\<close>
\<close>

definition updateVideo :: "jsval \<Rightarrow> world \<Rightarrow> (thrown + unit) \<times> world" where
  "updateVideo v w = put v w"

text \<open>
  Modelled from the spec: \<^verbatim>\<open>dbService.getVideoByUrl\<close> is missing.
  \<open>\<^verbatim>\<open>getByUrl(url) -> VideoRecord | absent\<close> (first match; url should be unique in
  practice but no uniqueness is enforced).\<close>
\<close>

definition getVideoByUrl :: "string \<Rightarrow> world \<Rightarrow> (thrown + jsobj option) \<times> world" where
  "getVideoByUrl u w =
     (case take_fault w of
        (Some e, w') \<Rightarrow> (Inl e, w')
      | (None, w') \<Rightarrow>
          (Inr (find (\<lambda>r. map_of r ''url'' = Some (JStr u)) (map snd (rows w'))), w'))"

text \<open>
  Modelled from the spec: \<^verbatim>\<open>dbService.getAllVideos\<close> is missing.
  \<open>\<^verbatim>\<open>getAll() -> sequence of VideoRecord\<close>.\<close>
\<close>

definition getAllVideos :: "world \<Rightarrow> (thrown + jsobj list) \<times> world" where
  "getAllVideos w =
     (case take_fault w of
        (Some e, w') \<Rightarrow> (Inl e, w')
      | (None, w') \<Rightarrow> (Inr (map snd (rows w')), w'))"

section \<open>The handlers of the privileged context\<close>

subsection \<open>handleSaveVideo\<close>

text \<open>
  \<^verbatim>\<open>videoInfo.url && videoInfo.id\<close> chooses the branch; the first read throws on
  \<^verbatim>\<open>null\<close> and \<^verbatim>\<open>undefined\<close>. The direct branch stores the payload as it is. The
  other branch opens the \<^verbatim>\<open>play://\<close> tab, then stores the payload spread into a new
  object with \<^verbatim>\<open>savedAt\<close> and \<^verbatim>\<open>lastSyncedAt\<close> read from the clock. Whatever is
  thrown on the way is answered by the \<^verbatim>\<open>catch\<close>.
\<close>

definition save_direct :: "jsval \<Rightarrow> world \<Rightarrow> (thrown + response) \<times> world" where
  "save_direct videoInfo w =
     (case addVideo videoInfo w of
        (Inl e, w') \<Rightarrow> (Inl e, w')
      | (Inr u, w') \<Rightarrow> (Inr ((reply True)\<lparr> message := Some ''Video saved to database'' \<rparr>), w'))"

definition save_play :: "platform \<Rightarrow> jsval \<Rightarrow> world \<Rightarrow> (thrown + response) \<times> world" where
  "save_play env videoInfo w =
     (case encodeURIComponent env (js_get videoInfo ''url'') of
        Inl e \<Rightarrow> (Inl e, w)
      | Inr enc \<Rightarrow>
          (let playUrl = ''play://add?url='' @ enc in
           case tabs_create env playUrl of
             Some e \<Rightarrow> (Inl e, w)
           | None \<Rightarrow>
               (let w1 = w\<lparr> opened_tabs := opened_tabs w @ [playUrl] \<rparr>;
                    (t1, w2) = now env w1;
                    (t2, w3) = now env w2;
                    video = AList.update ''lastSyncedAt'' (JStr t2)
                              (AList.update ''savedAt'' (JStr t1) (spread videoInfo))
                in case addVideo (JObj video) w3 of
                     (Inl e, w') \<Rightarrow> (Inl e, w')
                   | (Inr u, w') \<Rightarrow>
                       (Inr ((reply True)\<lparr> message := Some ''Video saved to Play'' \<rparr>), w'))))"

definition save_try :: "platform \<Rightarrow> jsval \<Rightarrow> world \<Rightarrow> (thrown + response) \<times> world" where
  "save_try env videoInfo w =
     (if nullish videoInfo then (Inl (nullish_read videoInfo ''url''), w)
      else if truthy (js_get videoInfo ''url'') \<and> truthy (js_get videoInfo ''id'')
      then save_direct videoInfo w
      else save_play env videoInfo w)"

definition handleSaveVideo :: "platform \<Rightarrow> jsval \<Rightarrow> world \<Rightarrow> response \<times> world" where
  "handleSaveVideo env videoInfo w =
     (case save_try env videoInfo w of
        (Inr r, w') \<Rightarrow> (r, w')
      | (Inl e, w') \<Rightarrow> (failure (error_message e), w'))"

subsection \<open>handleGetVideoInfo, handleGetVideoByUrl, handleGetAllVideos\<close>

definition handleGetVideoInfo :: "string \<Rightarrow> world \<Rightarrow> response \<times> world" where
  "handleGetVideoInfo u w =
     (case getVideoByUrl u w of
        (Inr v, w') \<Rightarrow> ((reply True)\<lparr> video := v \<rparr>, w')
      | (Inl e, w') \<Rightarrow> (failure (error_message e), w'))"

definition handleGetVideoByUrl :: "string \<Rightarrow> world \<Rightarrow> response \<times> world" where
  "handleGetVideoByUrl u w =
     (case getVideoByUrl u w of
        (Inr v, w') \<Rightarrow> ((reply True)\<lparr> video := v \<rparr>, w')
      | (Inl e, w') \<Rightarrow> (failure (error_message e), w'))"

definition handleGetAllVideos :: "world \<Rightarrow> response \<times> world" where
  "handleGetAllVideos w =
     (case getAllVideos w of
        (Inr vs, w') \<Rightarrow> ((reply True)\<lparr> videos := Some vs \<rparr>, w')
      | (Inl e, w') \<Rightarrow> (failure (error_message e), w'))"

subsection \<open>handleSyncVideos: reading the clipboard\<close>

text \<open>
  The text and the \<^verbatim>\<open>dataSource\<close> after approach 1. The script injected into the
  active tab answers first; when the injection throws, the content script of the tab is
  asked. Every failure is logged and leaves the text empty. A \<^verbatim>\<open>text\<close> that is
  missing counts as the empty string (both are falsy in the tests that follow).
\<close>

definition injected_text :: "clip_result option list \<Rightarrow> string \<times> string" where
  "injected_text results =
     (case results of
        Some r # rest \<Rightarrow>
          (if cr_success r
           then (case cr_text r of Some t \<Rightarrow> t | None \<Rightarrow> [], ''injected_script'')
           else ([], ''unknown''))
      | _ \<Rightarrow> ([], ''unknown''))"

definition relayed_text :: "thrown + clip_result option \<Rightarrow> string \<times> string" where
  "relayed_text answer =
     (case answer of
        Inr (Some r) \<Rightarrow>
          (if cr_success r
           then (case cr_text r of Some t \<Rightarrow> t | None \<Rightarrow> [], ''content_script'')
           else ([], ''unknown''))
      | _ \<Rightarrow> ([], ''unknown''))"

definition approach1 :: "platform \<Rightarrow> string \<times> string" where
  "approach1 env =
     (case tabs_query env of
        Inl e \<Rightarrow> ([], ''unknown'')
      | Inr tabs \<Rightarrow>
          (case tabs of
             [] \<Rightarrow> ([], ''unknown'')
           | tab # rest \<Rightarrow>
               (case tab_id tab of
                  None \<Rightarrow> ([], ''unknown'')
                | Some i \<Rightarrow>
                    (if i = 0 then ([], ''unknown'')
                     else (case executeScript env i of
                             Inr results \<Rightarrow> injected_text results
                           | Inl e \<Rightarrow> relayed_text (tabs_sendMessage env i))))))"

text \<open>Approach 2, tried while the text is empty: the clipboard of the background script.\<close>

definition approach2 :: "platform \<Rightarrow> string \<times> string \<Rightarrow> string \<times> string" where
  "approach2 env acquired =
     (if fst acquired = []
      then (case clipboard_readText env of
              Inr t \<Rightarrow> (t, ''background_script'')
            | Inl e \<Rightarrow> acquired)
      else acquired)"

definition read_clipboard :: "platform \<Rightarrow> string \<times> string" where
  "read_clipboard env = approach2 env (approach1 env)"

subsection \<open>handleSyncVideos: parsing and reconciling\<close>

text \<open>
  \<^verbatim>\<open>playVideos\<close> after the parse: an array as it is, an object (truthy, of type
  \<^verbatim>\<open>object\<close>) alone in a list, anything else leaves the empty list.
\<close>

definition normalize :: "jsval \<Rightarrow> jsval list" where
  "normalize parsed =
     (if isArray parsed then elements parsed
      else if truthy parsed \<and> typeof parsed = ''object'' then [parsed]
      else [])"

text \<open>The record built from one descriptor: the object literal of the loop body.\<close>

definition to_video :: "jsval \<Rightarrow> string \<Rightarrow> jsobj" where
  "to_video playVideo stamp =
     [ (''id'', js_get playVideo ''id''),
       (''title'', js_get playVideo ''title''),
       (''description'', js_get playVideo ''description''),
       (''url'', js_get playVideo ''url''),
       (''date_published'', js_get playVideo ''date_published''),
       (''second_url'', js_get playVideo ''second_url''),
       (''channel'', js_get playVideo ''channel''),
       (''duration_seconds'', js_get playVideo ''duration_seconds''),
       (''source'', js_get playVideo ''source''),
       (''notes'', js_get playVideo ''notes''),
       (''tags'', js_get playVideo ''tags''),
       (''artwork_url_high_res'', js_get playVideo ''artwork_url_high_res''),
       (''is_new'', js_get playVideo ''is_new''),
       (''star_rating'', js_get playVideo ''star_rating''),
       (''duration'', js_get playVideo ''duration''),
       (''artwork_url'', js_get playVideo ''artwork_url''),
       (''date_watched'', js_get playVideo ''date_watched''),
       (''date_added'', js_get playVideo ''date_added''),
       (''start_at_seconds'', js_get playVideo ''start_at_seconds''),
       (''saved_at'', js_get playVideo ''date_added''),
       (''last_synced_at'', JStr stamp) ]"

text \<open>
  The \<^verbatim>\<open>try\<close> block of the loop body. \<open>Inr True\<close> is an update, \<open>Inr False\<close>
  an insert. On \<^verbatim>\<open>null\<close> the first property read throws, before the clock is read.
\<close>

definition reconcile :: "platform \<Rightarrow> jsval \<Rightarrow> world \<Rightarrow> (thrown + bool) \<times> world" where
  "reconcile env playVideo w =
     (if nullish playVideo then (Inl (nullish_read playVideo ''id''), w)
      else
        (let (stamp, w1) = now env w;
             video = to_video playVideo stamp
         in case getVideo (js_get playVideo ''id'') w1 of
              (Inl e, w2) \<Rightarrow> (Inl e, w2)
            | (Inr existingVideo, w2) \<Rightarrow>
                (if existingVideo \<noteq> None
                 then (case updateVideo (JObj video) w2 of
                         (Inl e, w3) \<Rightarrow> (Inl e, w3)
                       | (Inr u, w3) \<Rightarrow> (Inr True, w3))
                 else (case addVideo (JObj video) w2 of
                         (Inl e, w3) \<Rightarrow> (Inl e, w3)
                       | (Inr u, w3) \<Rightarrow> (Inr False, w3)))))"

text \<open>
  The loop over \<^verbatim>\<open>playVideos\<close> with its two counters. The \<^verbatim>\<open>catch\<close> of the body
  logs \<^verbatim>\<open>playVideo.id\<close>: that read throws again when the descriptor is \<^verbatim>\<open>null\<close>,
  and this second error leaves the loop.
\<close>

fun process_videos ::
  "platform \<Rightarrow> jsval list \<Rightarrow> nat \<Rightarrow> nat \<Rightarrow> world \<Rightarrow> (thrown + nat \<times> nat) \<times> world" where
  "process_videos env [] added updated w = (Inr (added, updated), w)"
| "process_videos env (playVideo # rest) added updated w =
     (case reconcile env playVideo w of
        (Inr True, w') \<Rightarrow> process_videos env rest added (Suc updated) w'
      | (Inr False, w') \<Rightarrow> process_videos env rest (Suc added) updated w'
      | (Inl e, w') \<Rightarrow>
          (if nullish playVideo then (Inl (nullish_read playVideo ''id''), w')
           else process_videos env rest added updated w'))"

text \<open>\<^verbatim>\<open>{ success: false, error: ..., needsManualPaste: true }\<close>\<close>

definition manual_paste :: "string \<Rightarrow> response" where
  "manual_paste msg = (failure msg)\<lparr> needsManualPaste := Some True \<rparr>"

definition handleSyncVideos :: "platform \<Rightarrow> world \<Rightarrow> response \<times> world" where
  "handleSyncVideos env w =
     (let (clipboardText, dataSource) = read_clipboard env in
      if clipboardText = []
      then ((manual_paste
               ''Could not read clipboard from any source. Please use manual paste.'')
             \<lparr> debugInfo := Some
                 [ (''dataSource'', JStr dataSource),
                   (''message'', JStr
                      ''Both content script and background script clipboard reading failed'') ] \<rparr>,
            w)
      else
        (case JSON_parse env clipboardText of
           None \<Rightarrow>
             (manual_paste
                ''Invalid JSON data in clipboard. Please check your shortcut output.'', w)
         | Some parsed \<Rightarrow>
             (let playVideos = normalize parsed in
              if length playVideos = 0
              then (manual_paste ''No video data found in clipboard.'', w)
              else
                (case process_videos env playVideos 0 0 w of
                   (Inr (added, updated), w') \<Rightarrow>
                     ((reply True)
                        \<lparr> message := Some (''Synced '' @ show_nat added
                              @ '' new videos and updated '' @ show_nat updated
                              @ '' existing videos.''),
                          videosAdded := Some added,
                          videosUpdated := Some updated \<rparr>, w')
                 | (Inl e, w') \<Rightarrow> (manual_paste (error_message e), w')))))"

section \<open>The message listeners\<close>

record request =
  action :: string
  data :: jsval
  url :: string

text \<open>
  The listener of \<^verbatim>\<open>background.ts\<close>. A message whose sender is not the extension is
  logged and dropped: the listener returns without calling \<^verbatim>\<open>sendResponse\<close>
  (\<open>None\<close>).
\<close>

definition answered :: "response \<times> world \<Rightarrow> response option \<times> world" where
  "answered rw = (Some (fst rw), snd rw)"

definition background_onMessage ::
  "platform \<Rightarrow> request \<Rightarrow> string option \<Rightarrow> world \<Rightarrow> response option \<times> world" where
  "background_onMessage env req sender_id w =
     (if sender_id \<noteq> Some (runtime_id env) then (None, w)
      else if action req = ''saveVideo'' then answered (handleSaveVideo env (data req) w)
      else if action req = ''syncVideos'' then answered (handleSyncVideos env w)
      else if action req = ''getVideoInfo'' then answered (handleGetVideoInfo (url req) w)
      else if action req = ''getVideoByUrl'' then answered (handleGetVideoByUrl (url req) w)
      else if action req = ''getAllVideos'' then answered (handleGetAllVideos w)
      else (Some (failure ''Unknown action''), w))"

text \<open>
  The listener of the content script and its only handler, \<^verbatim>\<open>handleReadClipboard\<close>.
  The content script has no access to the store.
\<close>

definition handleReadClipboard :: "platform \<Rightarrow> response" where
  "handleReadClipboard env =
     (case content_clipboard env of
        None \<Rightarrow> failure ''Clipboard API not available in this context''
      | Some (Inr clipboardText) \<Rightarrow>
          (reply True)
            \<lparr> clip_text := Some clipboardText,
              debugInfo := Some
                [ (''textLength'', JNum (of_nat (length clipboardText))),
                  (''hasContent'', JBool (length clipboardText > 0)) ] \<rparr>
      | Some (Inl e) \<Rightarrow>
          (let errorMessage = (case e of ErrorObj n m \<Rightarrow> m | NonError t s \<Rightarrow> s) in
           (failure errorMessage)
             \<lparr> debugInfo := Some
                 [ (''errorType'', JStr (case e of ErrorObj n m \<Rightarrow> n | NonError t s \<Rightarrow> t)),
                   (''errorMessage'', JStr errorMessage) ] \<rparr>))"

definition content_onMessage ::
  "platform \<Rightarrow> request \<Rightarrow> string option \<Rightarrow> response option" where
  "content_onMessage env req sender_id =
     (if sender_id \<noteq> Some (runtime_id env)
      then Some (failure ''Unauthorized sender'')
      else if action req = ''readClipboard'' then Some (handleReadClipboard env)
      else Some (failure ''Unknown action''))"

section \<open>Observing the store\<close>

text \<open>The value of one field of the record stored under an id, if there is one.\<close>

definition stored_field :: "world \<Rightarrow> string \<Rightarrow> string \<Rightarrow> jsval option" where
  "stored_field w k name = map_option (\<lambda>r. js_get (JObj r) name) (map_of (rows w) k)"



text \<open>
  The record the Play branch of \<^verbatim>\<open>handleSaveVideo\<close> stores for a payload: its
  properties with \<^verbatim>\<open>savedAt\<close> and \<^verbatim>\<open>lastSyncedAt\<close> set to the next two clock
  readings.
\<close>

definition stamped :: "platform \<Rightarrow> world \<Rightarrow> jsval \<Rightarrow> jsobj" where
  "stamped env w v =
     AList.update ''lastSyncedAt'' (JStr (clock env (Suc (ticks w))))
       (AList.update ''savedAt'' (JStr (clock env (ticks w))) (spread v))"


section \<open>Sample platform, payloads and stores\<close>

text \<open>
  \<^verbatim>\<open>encodeURIComponent\<close> on a string of bytes, and on \<^verbatim>\<open>undefined\<close> and
  \<^verbatim>\<open>null\<close>, which it first turns into their names.
\<close>

definition unreserved :: "char \<Rightarrow> bool" where
  "unreserved c =
     (c \<in> set ''ABCDEFGHIJKLMNOPQRSTUVWXYZabcdefghijklmnopqrstuvwxyz0123456789-_.!~*()''
      \<or> c = CHR 0x27)"

definition percent :: "char \<Rightarrow> string" where
  "percent c =
     (if unreserved c then [c]
      else [CHR ''%'', ''0123456789ABCDEF'' ! (of_char c div 16),
            ''0123456789ABCDEF'' ! (of_char c mod 16)])"

fun sample_encode :: "jsval \<Rightarrow> thrown + string" where
  "sample_encode (JStr s) = Inr (concat (map percent s))"
| "sample_encode JUndefined = Inr ''undefined''"
| "sample_encode JNull = Inr ''null''"
| "sample_encode (JBool b) = Inr (if b then ''true'' else ''false'')"
| "sample_encode v = Inl (ErrorObj ''URIError'' ''URI malformed'')"

text \<open>A clock that advances by one millisecond at each reading.\<close>

definition sample_clock :: "nat \<Rightarrow> string" where
  "sample_clock n = ''2025-06-01T12:00:00.00'' @ [''0123456789'' ! (n mod 10)] @ ''Z''"

text \<open>Clipboard texts and what \<^verbatim>\<open>JSON.parse\<close> makes of them.\<close>

definition text_one :: string where
  \<open>text_one = ''[{"id":"a","is_new":"Yes","date_added":"2025-05-31T08:00:00.000Z"}]''\<close>

definition descriptor_a :: jsval where
  "descriptor_a =
     JObj [(''id'', JStr ''a''), (''is_new'', JStr ''Yes''),
           (''date_added'', JStr ''2025-05-31T08:00:00.000Z'')]"

definition descriptor_b :: jsval where
  "descriptor_b = JObj [(''id'', JStr ''b'')]"

definition parsed_one :: jsval where
  "parsed_one = JArr [descriptor_a]"

definition text_null_second :: string where
  \<open>text_null_second = ''[{"id":"a"},null,{"id":"b"}]''\<close>

definition parsed_null_second :: jsval where
  "parsed_null_second = JArr [JObj [(''id'', JStr ''a'')], JNull, descriptor_b]"

definition text_no_id_second :: string where
  \<open>text_no_id_second = ''[{"id":"a"},{"title":"T"},{"id":"b"}]''\<close>

definition parsed_no_id_second :: jsval where
  "parsed_no_id_second =
     JArr [JObj [(''id'', JStr ''a'')], JObj [(''title'', JStr ''T'')], descriptor_b]"

definition sample_parse :: "string \<Rightarrow> jsval option" where
  "sample_parse t =
     (if t = text_one then Some parsed_one
      else if t = text_null_second then Some parsed_null_second
      else if t = text_no_id_second then Some parsed_no_id_second
      else if t = ''5'' then Some (JNum 5)
      else if t = ''[]'' then Some (JArr [])
      else None)"

text \<open>Payloads of \<^verbatim>\<open>saveVideo\<close>: with id and url, without url, without id.\<close>

definition direct_payload :: jsval where
  "direct_payload =
     JObj [(''id'', JStr ''v1''), (''url'', JStr ''https://x/v1''), (''title'', JStr ''T'')]"

definition play_payload :: jsval where
  "play_payload = JObj [(''id'', JStr ''v2''), (''title'', JStr ''T'')]"

definition no_id_payload :: jsval where
  "no_id_payload = JObj [(''url'', JStr ''https://x/v3'')]"

text \<open>
  A platform whose clipboard holds the given text: the script injected into the active
  tab reads it.
\<close>

definition clipboard_platform :: "string \<Rightarrow> platform" where
  "clipboard_platform txt =
     \<lparr> runtime_id = ''save-to-play'',
       tabs_query = Inr [\<lparr> tab_id = Some 7, tab_url = Some ''https://www.youtube.com/'' \<rparr>],
       executeScript = (\<lambda>i. Inr [Some \<lparr> cr_success = True, cr_text = Some txt \<rparr>]),
       tabs_sendMessage = (\<lambda>i. Inr None),
       clipboard_readText = Inl (ErrorObj ''TypeError'' ''navigator.clipboard is undefined''),
       content_clipboard = Some (Inr txt),
       JSON_parse = sample_parse,
       encodeURIComponent = sample_encode,
       tabs_create = (\<lambda>u. None),
       clock = sample_clock \<rparr>"

definition empty_store :: world where
  "empty_store = \<lparr> rows = [], faults = [], ticks = 0, opened_tabs = [] \<rparr>"

text \<open>A store that holds the video \<^verbatim>\<open>a\<close>, watched, saved on 1 January 2024.\<close>

definition watched_store :: world where
  "watched_store =
     \<lparr> rows = [(''a'', [(''id'', JStr ''a''), (''url'', JStr ''https://x/a''),
                       (''is_new'', JStr ''No''),
                       (''saved_at'', JStr ''2024-01-01T00:00:00.000Z''),
                       (''last_synced_at'', JStr ''2024-01-01T00:00:00.000Z'')])],
       faults = [], ticks = 0, opened_tabs = [] \<rparr>"

text \<open>The same store when its next operation fails.\<close>

definition failing_store :: world where
  "failing_store = watched_store\<lparr> faults := [Some (ErrorObj ''QuotaExceededError'' ''Quota exceeded'')] \<rparr>"

section \<open>Unfolding the definitions\<close>

lemmas db_defs = take_fault_def getVideo_def put_def addVideo_def updateVideo_def
  getVideoByUrl_def getAllVideos_def invalid_key_def

lemmas clipboard_defs = read_clipboard_def approach1_def approach2_def injected_text_def
  relayed_text_def

lemmas sample_defs = sample_parse_def sample_clock_def
  descriptor_a_def descriptor_b_def direct_payload_def play_payload_def no_id_payload_def
  text_one_def parsed_one_def text_null_second_def parsed_null_second_def
  text_no_id_second_def parsed_no_id_second_def empty_store_def watched_store_def
  failing_store_def

lemmas response_defs = reply_def failure_def manual_paste_def

lemmas loop_defs = reconcile_def now_def db_defs Let_def

lemma clipboard_platform_sel [simp]:
  "runtime_id (clipboard_platform t) = ''save-to-play''"
  "JSON_parse (clipboard_platform t) = sample_parse"
  "clock (clipboard_platform t) = sample_clock"
  "encodeURIComponent (clipboard_platform t) = sample_encode"
  "tabs_create (clipboard_platform t) = (\<lambda>u. None)"
  "content_clipboard (clipboard_platform t) = Some (Inr t)"
  by (simp_all add: clipboard_platform_def)

lemma read_clipboard_sample [simp]:
  "read_clipboard (clipboard_platform t) = (t, ''injected_script'')"
  by (simp add: clipboard_defs clipboard_platform_def)

lemma manual_paste_fields [simp]:
  "success (manual_paste m) = False"
  "needsManualPaste (manual_paste m) = Some True"
  "error (manual_paste m) = Some m"
  by (simp_all add: response_defs)

text \<open>The three ways \<^verbatim>\<open>handleSyncVideos\<close> goes on once the clipboard gave a text.\<close>

lemma sync_parse_failure:
  "read_clipboard env = (body, src) \<Longrightarrow> body \<noteq> [] \<Longrightarrow> JSON_parse env body = None \<Longrightarrow>
     handleSyncVideos env w =
       (manual_paste ''Invalid JSON data in clipboard. Please check your shortcut output.'', w)"
  by (simp add: handleSyncVideos_def)

lemma sync_no_data:
  "read_clipboard env = (body, src) \<Longrightarrow> body \<noteq> [] \<Longrightarrow> JSON_parse env body = Some parsed \<Longrightarrow>
     normalize parsed = [] \<Longrightarrow>
     handleSyncVideos env w = (manual_paste ''No video data found in clipboard.'', w)"
  by (simp add: handleSyncVideos_def)

lemma sync_process:
  "read_clipboard env = (body, src) \<Longrightarrow> body \<noteq> [] \<Longrightarrow> JSON_parse env body = Some parsed \<Longrightarrow>
     normalize parsed \<noteq> [] \<Longrightarrow>
     handleSyncVideos env w =
       (case process_videos env (normalize parsed) 0 0 w of
          (Inr (added, updated), w') \<Rightarrow>
            ((reply True)
               \<lparr> message := Some (''Synced '' @ show_nat added
                     @ '' new videos and updated '' @ show_nat updated
                     @ '' existing videos.''),
                 videosAdded := Some added,
                 videosUpdated := Some updated \<rparr>, w')
        | (Inl e, w') \<Rightarrow> (manual_paste (error_message e), w'))"
  by (simp add: handleSyncVideos_def)

text \<open>Two runs on sample clipboards: a \<^verbatim>\<open>null\<close> and an object without id in second place.\<close>

lemma null_message:
  "nullish_read JNull ''id'' =
     ErrorObj ''TypeError''
       (''Cannot read properties of null (reading '' @ [CHR 0x27] @ ''id'' @ [CHR 0x27] @ '')'')"
  by (simp add: nullish_read_def)

lemma sync_null_second_eval:
  "handleSyncVideos (clipboard_platform text_null_second) empty_store =
     (manual_paste
        (''Cannot read properties of null (reading '' @ [CHR 0x27] @ ''id'' @ [CHR 0x27] @ '')''),
      \<lparr> rows = [(''a'', to_video (JObj [(''id'', JStr ''a'')]) (sample_clock 0))],
        faults = [], ticks = 1, opened_tabs = [] \<rparr>)"
proof -
  have rc: "read_clipboard (clipboard_platform text_null_second)
              = (text_null_second, ''injected_script'')"
    by simp
  have ne: "text_null_second \<noteq> []"
    by (simp add: text_null_second_def)
  have p: "JSON_parse (clipboard_platform text_null_second) text_null_second
             = Some parsed_null_second"
    by (simp add: sample_defs)
  have n: "normalize parsed_null_second \<noteq> []"
    by (simp add: normalize_def parsed_null_second_def)
  have l: "process_videos (clipboard_platform text_null_second)
             (normalize parsed_null_second) 0 0 empty_store
           = (Inl (nullish_read JNull ''id''),
              \<lparr> rows = [(''a'', to_video (JObj [(''id'', JStr ''a'')]) (sample_clock 0))],
                faults = [], ticks = 1, opened_tabs = [] \<rparr>)"
    by (simp add: normalize_def parsed_null_second_def descriptor_b_def empty_store_def
        loop_defs to_video_def)
  show ?thesis
    by (simp add: sync_process [OF rc ne p n] l null_message)
qed

lemma sync_no_id_second_eval:
  "handleSyncVideos (clipboard_platform text_no_id_second) empty_store =
     ((reply True)\<lparr> message := Some ''Synced 2 new videos and updated 0 existing videos.'',
          videosAdded := Some 2, videosUpdated := Some 0 \<rparr>,
      \<lparr> rows = [(''a'', to_video (JObj [(''id'', JStr ''a'')]) (sample_clock 0)),
                (''b'', to_video (JObj [(''id'', JStr ''b'')]) (sample_clock 2))],
        faults = [], ticks = 3, opened_tabs = [] \<rparr>)"
proof -
  have rc: "read_clipboard (clipboard_platform text_no_id_second)
              = (text_no_id_second, ''injected_script'')"
    by simp
  have ne: "text_no_id_second \<noteq> []"
    by (simp add: text_no_id_second_def)
  have p: "JSON_parse (clipboard_platform text_no_id_second) text_no_id_second
             = Some parsed_no_id_second"
    by (simp add: sample_defs)
  have n: "normalize parsed_no_id_second \<noteq> []"
    by (simp add: normalize_def parsed_no_id_second_def)
  have l: "process_videos (clipboard_platform text_no_id_second)
             (normalize parsed_no_id_second) 0 0 empty_store
           = (Inr (2, 0),
              \<lparr> rows = [(''a'', to_video (JObj [(''id'', JStr ''a'')]) (sample_clock 0)),
                        (''b'', to_video (JObj [(''id'', JStr ''b'')]) (sample_clock 2))],
                faults = [], ticks = 3, opened_tabs = [] \<rparr>)"
    by (simp add: normalize_def parsed_no_id_second_def descriptor_b_def empty_store_def
        loop_defs to_video_def numeral_2_eq_2)
  show ?thesis
    by (simp add: sync_process [OF rc ne p n] l show_nat.simps)
qed

section \<open>What the handlers do to the store\<close>

lemma take_fault_rows: "take_fault w = (f, w') \<Longrightarrow> rows w' = rows w \<and> ticks w' = ticks w \<and> opened_tabs w' = opened_tabs w"
  by (auto simp add: take_fault_def split: list.splits)

lemma put_failure: "put v w = (Inl e, w') \<Longrightarrow> rows w' = rows w"
  by (auto simp add: put_def split: prod.splits option.splits jsval.splits dest: take_fault_rows)

lemma put_success:
  "put v w = (Inr u, w') \<Longrightarrow>
     \<exists>kvs k. v = JObj kvs \<and> map_of kvs ''id'' = Some (JStr k)
       \<and> rows w' = AList.update k kvs (rows w)"
  by (auto simp add: put_def split: prod.splits option.splits jsval.splits dest: take_fault_rows)

lemma getVideo_rows: "getVideo key w = (res, w') \<Longrightarrow> rows w' = rows w \<and> ticks w' = ticks w"
  by (auto simp add: getVideo_def split: prod.splits option.splits jsval.splits dest: take_fault_rows)

lemma getVideo_success:
  "getVideo key w = (Inr found, w') \<Longrightarrow>
     \<exists>k. key = JStr k \<and> found = map_of (rows w) k \<and> rows w' = rows w"
  by (auto simp add: getVideo_def split: prod.splits option.splits jsval.splits dest: take_fault_rows)

lemma to_video_id [simp]: "map_of (to_video d stamp) ''id'' = Some (js_get d ''id'')"
  by (simp add: to_video_def)

lemma reconcile_failure: "reconcile env d w = (Inl e, w') \<Longrightarrow> rows w' = rows w"
  by (auto simp add: reconcile_def now_def addVideo_def updateVideo_def Let_def
      split: if_splits prod.splits sum.splits dest!: getVideo_rows put_failure)

lemma reconcile_success:
  assumes "reconcile env d w = (Inr b, w')"
  shows "\<exists>k. js_get d ''id'' = JStr k
       \<and> rows w' = AList.update k (to_video d (clock env (ticks w))) (rows w)
       \<and> b = (map_of (rows w) k \<noteq> None)"
proof -
  let ?w1 = "w\<lparr> ticks := Suc (ticks w) \<rparr>"
  let ?video = "to_video d (clock env (ticks w))"
  from assms have nn: "\<not> nullish d"
    by (auto simp add: reconcile_def split: if_splits)
  obtain g w2 where g: "getVideo (js_get d ''id'') ?w1 = (g, w2)"
    by (cases "getVideo (js_get d ''id'') ?w1")
  with assms nn obtain found where f: "g = Inr found"
    by (cases g) (auto simp add: reconcile_def now_def)
  from getVideo_success [OF g [unfolded f]] obtain k
    where k: "js_get d ''id'' = JStr k" "found = map_of (rows w) k" "rows w2 = rows w"
    by auto
  show ?thesis
  proof (cases "found = None")
    case True
    with assms nn g f obtain u where "addVideo (JObj ?video) w2 = (Inr u, w')" "b = False"
      by (auto simp add: reconcile_def now_def split: prod.splits sum.splits)
    with put_success [of "JObj ?video" w2 u w'] k True show ?thesis
      by (auto simp add: addVideo_def)
  next
    case False
    with assms nn g f obtain u where "updateVideo (JObj ?video) w2 = (Inr u, w')" "b = True"
      by (auto simp add: reconcile_def now_def split: prod.splits sum.splits)
    with put_success [of "JObj ?video" w2 u w'] k False show ?thesis
      by (auto simp add: updateVideo_def)
  qed
qed


lemma map_of_update_other: "k' \<noteq> k \<Longrightarrow> map_of (AList.update k v rs) k' = map_of rs k'"
  by (simp add: update_conv')

lemma map_of_update_same: "map_of (AList.update k v rs) k = Some v"
  by (simp add: update_conv')

lemma reconcile_other_rows:
  assumes "reconcile env d w = (res, w')" and "js_get d ''id'' \<noteq> JStr k'"
  shows "map_of (rows w') k' = map_of (rows w) k'"
proof (cases res)
  case (Inl e)
  with assms reconcile_failure show ?thesis by simp
next
  case (Inr b)
  with assms reconcile_success [of env d w b w'] show ?thesis
    by (auto simp add: map_of_update_other)
qed

lemma put_opened_tabs: "put v w = (res, w') \<Longrightarrow> opened_tabs w' = opened_tabs w \<and> ticks w' = ticks w"
  by (auto simp add: put_def split: prod.splits option.splits jsval.splits dest: take_fault_rows)

lemma save_direct_failure: "save_direct v w = (Inl e, w') \<Longrightarrow> rows w' = rows w"
  by (auto simp add: save_direct_def addVideo_def split: prod.splits sum.splits dest: put_failure)

lemma save_direct_success:
  assumes "save_direct v w = (Inr r, w')"
  shows "r = (reply True)\<lparr> message := Some ''Video saved to database'' \<rparr>
     \<and> (\<exists>kvs k. v = JObj kvs \<and> map_of kvs ''id'' = Some (JStr k)
           \<and> rows w' = AList.update k kvs (rows w))
     \<and> opened_tabs w' = opened_tabs w"
proof -
  from assms obtain u where p: "put v w = (Inr u, w')"
    and r: "r = (reply True)\<lparr> message := Some ''Video saved to database'' \<rparr>"
    by (auto simp add: save_direct_def addVideo_def split: prod.splits sum.splits)
  from put_success [OF p] put_opened_tabs [OF p] r show ?thesis by simp
qed

lemma save_play_failure: "save_play env v w = (Inl e, w') \<Longrightarrow> rows w' = rows w"
  by (auto simp add: save_play_def addVideo_def now_def Let_def
      split: prod.splits sum.splits option.splits dest!: put_failure)


lemma save_play_success:
  assumes "save_play env v w = (Inr r, w')"
  shows "r = (reply True)\<lparr> message := Some ''Video saved to Play'' \<rparr>
     \<and> (\<exists>k. map_of (stamped env w v) ''id'' = Some (JStr k)
           \<and> rows w' = AList.update k (stamped env w v) (rows w))
     \<and> (\<exists>enc. encodeURIComponent env (js_get v ''url'') = Inr enc
           \<and> opened_tabs w' = opened_tabs w @ [''play://add?url='' @ enc])"
proof -
  from assms obtain enc where enc: "encodeURIComponent env (js_get v ''url'') = Inr enc"
    by (cases "encodeURIComponent env (js_get v ''url'')") (auto simp add: save_play_def)
  let ?url = "''play://add?url='' @ enc"
  from assms enc have tc: "tabs_create env ?url = None"
    by (cases "tabs_create env ?url") (auto simp add: save_play_def)
  let ?w3 = "w\<lparr> opened_tabs := opened_tabs w @ [?url], ticks := Suc (Suc (ticks w)) \<rparr>"
  from assms enc tc obtain u where p: "put (JObj (stamped env w v)) ?w3 = (Inr u, w')"
    and r: "r = (reply True)\<lparr> message := Some ''Video saved to Play'' \<rparr>"
    by (auto simp add: save_play_def addVideo_def now_def Let_def stamped_def
        split: prod.splits sum.splits)
  from put_success [OF p] put_opened_tabs [OF p] r enc show ?thesis by auto
qed

lemma stamped_id:
  "map_of (stamped env w v) ''id'' = map_of (spread v) ''id''"
  by (simp add: stamped_def update_conv')

lemma handleSaveVideo_failure:
  assumes "handleSaveVideo env v w = (r, w')" and "\<not> success r"
  shows "(\<exists>e. r = failure (error_message e)) \<and> rows w' = rows w"
proof -
  obtain res w1 where t: "save_try env v w = (res, w1)"
    by (cases "save_try env v w")
  show ?thesis
  proof (cases res)
    case (Inl e)
    with t assms have "r = failure (error_message e)" "w' = w1"
      by (auto simp add: handleSaveVideo_def)
    moreover from t Inl have "rows w1 = rows w"
      by (auto simp add: save_try_def split: if_splits
          dest: save_direct_failure save_play_failure)
    ultimately show ?thesis by auto
  next
    case (Inr r1)
    with t assms have "r = r1" "w' = w1"
      by (auto simp add: handleSaveVideo_def)
    with t Inr assms(2) show ?thesis
      by (auto simp add: save_try_def reply_def split: if_splits
          dest!: save_direct_success save_play_success)
  qed
qed

lemma handleSaveVideo_success:
  assumes "handleSaveVideo env v w = (r, w')" and "success r"
  shows "save_try env v w = (Inr r, w')"
proof -
  obtain res w1 where t: "save_try env v w = (res, w1)"
    by (cases "save_try env v w")
  with assms show ?thesis
    by (cases res) (auto simp add: handleSaveVideo_def failure_def reply_def)
qed


lemma show_nat_digits: "set (show_nat n) \<subseteq> set ''0123456789''"
proof (induction n rule: show_nat.induct)
  case (1 n)
  have d: "''0123456789'' ! k \<in> set ''0123456789''" if "k < 10" for k
    using that nth_mem [of k "''0123456789''"] by simp
  show ?case
  proof (cases "n < 10")
    case True
    then show ?thesis using d [of n] by (simp add: show_nat.simps [of n])
  next
    case False
    have "n mod 10 < 10" by simp
    with False "1" d [of "n mod 10"] show ?thesis
      by (simp add: show_nat.simps [of n])
  qed
qed

lemma show_nat_not_id: "show_nat n \<noteq> ''id''"
proof
  assume "show_nat n = ''id''"
  with show_nat_digits [of n] show False by simp
qed

lemma spread_index_id: "map_of (zip (map show_nat ns) xs) ''id'' = None"
proof -
  have "''id'' \<notin> set (map show_nat ns)"
    using show_nat_not_id by (auto simp del: show_nat_not_id dest: sym)
  then have "''id'' \<notin> fst ` set (zip (map show_nat ns) xs)"
    by (auto dest: set_zip_leftD)
  then show ?thesis by (simp add: map_of_eq_None_iff)
qed

lemma spread_id: "map_of (spread v) ''id'' = Some (JStr k) \<Longrightarrow> js_get v ''id'' = JStr k \<and> (\<exists>kvs. v = JObj kvs)"
  by (cases v) (simp_all add: spread_index_id)

lemma stamped_get:
  "name \<noteq> ''savedAt'' \<Longrightarrow> name \<noteq> ''lastSyncedAt'' \<Longrightarrow>
     js_get (JObj (stamped env w (JObj kvs))) name = js_get (JObj kvs) name"
  by (simp add: stamped_def update_conv')

lemma handleSaveVideo_rows:
  assumes "handleSaveVideo env v w = (r, w')" and "success r"
  shows "\<exists>k rec. js_get v ''id'' = JStr k \<and> rows w' = AList.update k rec (rows w)
           \<and> js_get (JObj rec) ''is_new'' = js_get v ''is_new''"
proof -
  from handleSaveVideo_success [OF assms] have t: "save_try env v w = (Inr r, w')" .
  then have nn: "\<not> nullish v" by (auto simp add: save_try_def split: if_splits)
  show ?thesis
  proof (cases "truthy (js_get v ''url'') \<and> truthy (js_get v ''id'')")
    case True
    with t nn have "save_direct v w = (Inr r, w')" by (simp add: save_try_def)
    from save_direct_success [OF this] show ?thesis by auto
  next
    case False
    with t nn have "save_play env v w = (Inr r, w')" by (simp add: save_try_def)
    from save_play_success [OF this] obtain k
      where k: "map_of (stamped env w v) ''id'' = Some (JStr k)"
        and r: "rows w' = AList.update k (stamped env w v) (rows w)" by auto
    from k spread_id [of v k] obtain kvs where v: "v = JObj kvs" "js_get v ''id'' = JStr k"
      by (auto simp add: stamped_id)
    with r stamped_get [of "''is_new''" env w kvs] show ?thesis by auto
  qed
qed

lemma handleSaveVideo_other_rows:
  assumes "handleSaveVideo env v w = (r, w')" and "js_get v ''id'' \<noteq> JStr k'"
  shows "map_of (rows w') k' = map_of (rows w) k'"
proof (cases "success r")
  case True
  from handleSaveVideo_rows [OF assms(1) True] assms(2) show ?thesis
    by (auto simp add: map_of_update_other)
next
  case False
  from handleSaveVideo_failure [OF assms(1) False] show ?thesis by simp
qed

lemma to_video_get [simp]:
  "map_of (to_video d stamp) ''saved_at'' = Some (js_get d ''date_added'')"
  "map_of (to_video d stamp) ''is_new'' = Some (js_get d ''is_new'')"
  by (simp_all add: to_video_def)






section \<open>The loop on a healthy store\<close>


















section \<open>Sample runs\<close>

lemma sync_one_watched_eval:
  "handleSyncVideos (clipboard_platform text_one) watched_store =
     ((reply True)\<lparr> message := Some ''Synced 0 new videos and updated 1 existing videos.'',
          videosAdded := Some 0, videosUpdated := Some 1 \<rparr>,
      \<lparr> rows = [(''a'', to_video descriptor_a (sample_clock 0))],
        faults = [], ticks = 1, opened_tabs = [] \<rparr>)"
proof -
  have rc: "read_clipboard (clipboard_platform text_one) = (text_one, ''injected_script'')"
    by simp
  have ne: "text_one \<noteq> []"
    by (simp add: text_one_def)
  have p: "JSON_parse (clipboard_platform text_one) text_one = Some parsed_one"
    by (simp add: sample_parse_def)
  have n: "normalize parsed_one \<noteq> []"
    by (simp add: normalize_def parsed_one_def)
  have l: "process_videos (clipboard_platform text_one) (normalize parsed_one) 0 0 watched_store
           = (Inr (0, 1),
              \<lparr> rows = [(''a'', to_video descriptor_a (sample_clock 0))],
                faults = [], ticks = 1, opened_tabs = [] \<rparr>)"
    by (simp add: normalize_def parsed_one_def descriptor_a_def watched_store_def loop_defs
        to_video_def)
  show ?thesis
    by (simp add: sync_process [OF rc ne p n] l show_nat.simps)
qed

lemma reconcile_a_watched:
  "reconcile (clipboard_platform t) descriptor_a watched_store =
     (Inr True, \<lparr> rows = [(''a'', to_video descriptor_a (sample_clock 0))],
                faults = [], ticks = 1, opened_tabs = [] \<rparr>)"
  by (simp add: descriptor_a_def watched_store_def loop_defs to_video_def)

lemma reconcile_b_watched:
  "reconcile (clipboard_platform t) descriptor_b watched_store =
     (Inr False, \<lparr> rows = rows watched_store @ [(''b'', to_video descriptor_b (sample_clock 0))],
                faults = [], ticks = 1, opened_tabs = [] \<rparr>)"
  by (simp add: descriptor_b_def watched_store_def loop_defs to_video_def)

lemma save_direct_watched:
  "handleSaveVideo (clipboard_platform t) direct_payload watched_store =
     ((reply True)\<lparr> message := Some ''Video saved to database'' \<rparr>,
      \<lparr> rows = rows watched_store
                 @ [(''v1'', [(''id'', JStr ''v1''), (''url'', JStr ''https://x/v1''),
                              (''title'', JStr ''T'')])],
        faults = [], ticks = 0, opened_tabs = [] \<rparr>)"
  by (simp add: handleSaveVideo_def save_try_def save_direct_def direct_payload_def
      watched_store_def db_defs)





section \<open>The sender check (C1)\<close>

text \<open>
  C1: a request whose sender is not the extension itself is answered
  \<^verbatim>\<open>{success:false, error:"Unauthorized sender"}\<close>, no handler runs and the store is
  unchanged. The listener of the content script answers so. The listener of the
  background script, which owns the store, runs no handler and leaves the world as it
  was, but it returns without calling \<^verbatim>\<open>sendResponse\<close>: the sender gets no answer.
\<close>

theorem unauthorized_sender_dropped:
  "sender_id \<noteq> Some (runtime_id env) \<Longrightarrow>
     background_onMessage env req sender_id w = (None, w)
     \<and> content_onMessage env req sender_id = Some (failure ''Unauthorized sender'')"
  by (simp add: background_onMessage_def content_onMessage_def)

theorem unauthorized_sender_dropped_witness:
  "background_onMessage (clipboard_platform text_one)
     \<lparr> action = ''syncVideos'', data = JUndefined, url = [] \<rparr> (Some ''another-extension'')
     watched_store = (None, watched_store)
   \<and> content_onMessage (clipboard_platform text_one)
     \<lparr> action = ''syncVideos'', data = JUndefined, url = [] \<rparr> (Some ''another-extension'')
     = Some (failure ''Unauthorized sender'')"
  using unauthorized_sender_dropped
    [of "Some ''another-extension''" "clipboard_platform text_one"
       "\<lparr> action = ''syncVideos'', data = JUndefined, url = [] \<rparr>" watched_store]
  by simp

section \<open>Malformed and empty payloads (C5, C8)\<close>

text \<open>
  C5: when the clipboard text is not valid JSON, the sync answers with \<^verbatim>\<open>success:false\<close>
  and \<^verbatim>\<open>needsManualPaste:true\<close>; nothing of the text is used and the world is the one
  before the call (no record written, no store operation, no clock reading). A text
  that is not empty is answered \<^verbatim>\<open>Invalid JSON data in clipboard\<close>.
\<close>

theorem malformed_payload_rejected:
  assumes "fst (read_clipboard env) = body" and "JSON_parse env body = None"
  shows "success (fst (handleSyncVideos env w)) = False
         \<and> needsManualPaste (fst (handleSyncVideos env w)) = Some True
         \<and> snd (handleSyncVideos env w) = w
         \<and> (body \<noteq> [] \<longrightarrow>
              handleSyncVideos env w =
                (manual_paste
                   ''Invalid JSON data in clipboard. Please check your shortcut output.'', w))"
proof -
  obtain src where rc: "read_clipboard env = (body, src)"
    using assms(1) by (cases "read_clipboard env") simp
  show ?thesis
  proof (cases "body = []")
    case True
    with rc show ?thesis
      by (simp add: handleSyncVideos_def)
  next
    case False
    from sync_parse_failure [OF rc False assms(2)] False show ?thesis by simp
  qed
qed

theorem malformed_payload_rejected_witness:
  "success (fst (handleSyncVideos (clipboard_platform ''not json'') watched_store)) = False
   \<and> needsManualPaste (fst (handleSyncVideos (clipboard_platform ''not json'') watched_store))
       = Some True
   \<and> snd (handleSyncVideos (clipboard_platform ''not json'') watched_store) = watched_store
   \<and> handleSyncVideos (clipboard_platform ''not json'') watched_store =
       (manual_paste ''Invalid JSON data in clipboard. Please check your shortcut output.'',
        watched_store)"
proof -
  have a: "fst (read_clipboard (clipboard_platform ''not json'')) = ''not json''" by simp
  have b: "''not json'' \<noteq> []" by simp
  have c: "JSON_parse (clipboard_platform ''not json'') ''not json'' = None"
    by (simp add: sample_defs)
  from malformed_payload_rejected [OF a c, of watched_store] b show ?thesis by blast
qed



section \<open>The two lookups by URL (C9)\<close>



section \<open>Failure responses of the sync (C10)\<close>

text \<open>
  C10: every failure response of \<^verbatim>\<open>handleSyncVideos\<close> carries
  \<^verbatim>\<open>needsManualPaste: true\<close>: the clipboard, parse and empty-list failures and also
  the response of the outermost \<^verbatim>\<open>catch\<close>.
\<close>

theorem sync_failure_needs_manual_paste:
  assumes "handleSyncVideos env w = (r, w')" and "\<not> success r"
  shows "needsManualPaste r = Some True"
proof -
  obtain body src where rc: "read_clipboard env = (body, src)"
    by (cases "read_clipboard env")
  show ?thesis
  proof (cases "body = []")
    case True
    with rc assms show ?thesis
      by (auto simp add: handleSyncVideos_def response_defs)
  next
    case False
    show ?thesis
    proof (cases "JSON_parse env body")
      case None
      from sync_parse_failure [OF rc False None, of w] assms show ?thesis by auto
    next
      case (Some parsed)
      show ?thesis
      proof (cases "normalize parsed = []")
        case True
        from sync_no_data [OF rc False Some True, of w] assms show ?thesis by auto
      next
        case ne: False
        from sync_process [OF rc False Some ne, of w] assms show ?thesis
          by (auto simp add: reply_def split: prod.splits sum.splits)
      qed
    qed
  qed
qed

theorem sync_failure_needs_manual_paste_witness:
  "\<not> success (fst (handleSyncVideos (clipboard_platform text_null_second) empty_store))
   \<and> needsManualPaste (fst (handleSyncVideos (clipboard_platform text_null_second) empty_store))
       = Some True"
proof -
  have f: "\<not> success (fst (handleSyncVideos (clipboard_platform text_null_second) empty_store))"
    by (simp add: sync_null_second_eval)
  from sync_failure_needs_manual_paste [OF surjective_pairing f] f show ?thesis by simp
qed

section \<open>Writes replace the record (C2, C7)\<close>

text \<open>
  C2 says that no write changes the \<^verbatim>\<open>savedAt\<close> of a record that is already in the
  store. The upsert of the sync loop does: the video \<^verbatim>\<open>a\<close>, saved on 1 January 2024,
  is stored again with \<^verbatim>\<open>saved_at\<close> = the \<^verbatim>\<open>date_added\<close> of the descriptor.
\<close>

theorem sync_overwrites_saved_at_counterexample:
  "stored_field watched_store ''a'' ''saved_at'' = Some (JStr ''2024-01-01T00:00:00.000Z'')
   \<and> stored_field (snd (handleSyncVideos (clipboard_platform text_one) watched_store))
        ''a'' ''saved_at'' = Some (JStr ''2025-05-31T08:00:00.000Z'')"
  by (simp add: sync_one_watched_eval stored_field_def)
    (simp add: watched_store_def descriptor_a_def)

text \<open>
  C2, amended: the upsert of the sync loop stores the record with \<^verbatim>\<open>saved_at\<close> set to
  the \<^verbatim>\<open>date_added\<close> of the descriptor, whatever was stored before; a write, by the
  sync loop or by \<^verbatim>\<open>saveVideo\<close>, leaves every record with another id as it was, its
  \<^verbatim>\<open>saved_at\<close> included.
\<close>

theorem sync_upsert_sets_saved_at:
  "(reconcile env d w = (Inr b, w') \<and> js_get d ''id'' = JStr k
      \<longrightarrow> stored_field w' k ''saved_at'' = Some (js_get d ''date_added''))
   \<and> (reconcile env d w = (res, w') \<and> js_get d ''id'' \<noteq> JStr k'
      \<longrightarrow> map_of (rows w') k' = map_of (rows w) k')
   \<and> (handleSaveVideo env v w = (r, w1) \<and> js_get v ''id'' \<noteq> JStr k'
      \<longrightarrow> map_of (rows w1) k' = map_of (rows w) k')"
proof (intro conjI impI)
  assume a: "reconcile env d w = (Inr b, w') \<and> js_get d ''id'' = JStr k"
  with reconcile_success [of env d w b w']
  have "rows w' = AList.update k (to_video d (clock env (ticks w))) (rows w)" by auto
  then show "stored_field w' k ''saved_at'' = Some (js_get d ''date_added'')"
    by (simp add: stored_field_def map_of_update_same)
next
  assume "reconcile env d w = (res, w') \<and> js_get d ''id'' \<noteq> JStr k'"
  then show "map_of (rows w') k' = map_of (rows w) k'"
    using reconcile_other_rows by blast
next
  assume "handleSaveVideo env v w = (r, w1) \<and> js_get v ''id'' \<noteq> JStr k'"
  then show "map_of (rows w1) k' = map_of (rows w) k'"
    using handleSaveVideo_other_rows by blast
qed

theorem sync_upsert_sets_saved_at_witness:
  "stored_field (snd (reconcile (clipboard_platform text_one) descriptor_a watched_store))
       ''a'' ''saved_at'' = Some (JStr ''2025-05-31T08:00:00.000Z'')
   \<and> map_of (rows (snd (reconcile (clipboard_platform text_one) descriptor_b watched_store))) ''a''
       = map_of (rows watched_store) ''a''
   \<and> map_of (rows (snd (handleSaveVideo (clipboard_platform text_one) direct_payload
                          watched_store))) ''a''
       = map_of (rows watched_store) ''a''"
proof -
  let ?E = "clipboard_platform text_one"
  have a: "reconcile ?E descriptor_a watched_store
             = (Inr True, snd (reconcile ?E descriptor_a watched_store))
           \<and> js_get descriptor_a ''id'' = JStr ''a''"
    by (simp add: reconcile_a_watched) (simp add: descriptor_a_def)
  have b: "reconcile ?E descriptor_b watched_store
             = (Inr False, snd (reconcile ?E descriptor_b watched_store))
           \<and> js_get descriptor_b ''id'' \<noteq> JStr ''a''"
    by (simp add: reconcile_b_watched) (simp add: descriptor_b_def)
  have c: "handleSaveVideo ?E direct_payload watched_store
             = (fst (handleSaveVideo ?E direct_payload watched_store),
                snd (handleSaveVideo ?E direct_payload watched_store))
           \<and> js_get direct_payload ''id'' \<noteq> JStr ''a''"
    by (simp add: direct_payload_def)
  have d: "js_get descriptor_a ''date_added'' = JStr ''2025-05-31T08:00:00.000Z''"
    by (simp add: descriptor_a_def)
  have 1: "stored_field (snd (reconcile ?E descriptor_a watched_store)) ''a'' ''saved_at''
             = Some (js_get descriptor_a ''date_added'')"
    using a sync_upsert_sets_saved_at
         [where env = ?E and d = descriptor_a and w = watched_store and b = True
            and w' = "snd (reconcile ?E descriptor_a watched_store)" and k = "''a''"
            and res = "Inr True" and k' = "''b''" and v = direct_payload
            and r = "fst (handleSaveVideo ?E direct_payload watched_store)"
            and ?w1.0 = "snd (handleSaveVideo ?E direct_payload watched_store)"]
    by blast
  have 2: "map_of (rows (snd (reconcile ?E descriptor_b watched_store))) ''a''
             = map_of (rows watched_store) ''a''
           \<and> map_of (rows (snd (handleSaveVideo ?E direct_payload watched_store))) ''a''
             = map_of (rows watched_store) ''a''"
    using b c sync_upsert_sets_saved_at
         [where env = ?E and d = descriptor_b and w = watched_store and b = False
            and w' = "snd (reconcile ?E descriptor_b watched_store)" and k = "''b''"
            and res = "Inr False" and k' = "''a''" and v = direct_payload
            and r = "fst (handleSaveVideo ?E direct_payload watched_store)"
            and ?w1.0 = "snd (handleSaveVideo ?E direct_payload watched_store)"]
    by blast
  from 1 2 d show ?thesis by simp
qed

text \<open>
  C7 says that no operation brings \<^verbatim>\<open>isNew\<close> of a stored record from \<^verbatim>\<open>No\<close> back
  to \<^verbatim>\<open>Yes\<close>. A sync whose descriptor says \<^verbatim>\<open>Yes\<close> does: the watched video
  \<^verbatim>\<open>a\<close> is stored again with \<^verbatim>\<open>is_new\<close> = \<^verbatim>\<open>Yes\<close>.
\<close>

theorem sync_repromotes_is_new_counterexample:
  "stored_field watched_store ''a'' ''is_new'' = Some (JStr ''No'')
   \<and> stored_field (snd (handleSyncVideos (clipboard_platform text_one) watched_store))
        ''a'' ''is_new'' = Some (JStr ''Yes'')"
  by (simp add: sync_one_watched_eval stored_field_def)
    (simp add: watched_store_def descriptor_a_def)

text \<open>
  C7, amended: a write replaces the record, so after an upsert of the sync loop or a
  successful \<^verbatim>\<open>saveVideo\<close> the \<^verbatim>\<open>is_new\<close> of the written record is the one of the
  incoming descriptor or payload (it stays \<^verbatim>\<open>No\<close> exactly when that one says
  \<^verbatim>\<open>No\<close>), and the \<^verbatim>\<open>is_new\<close> of every record with another id is unchanged.
\<close>

theorem write_sets_is_new_from_payload:
  "(reconcile env d w = (Inr b, w') \<and> js_get d ''id'' = JStr k
      \<longrightarrow> stored_field w' k ''is_new'' = Some (js_get d ''is_new''))
   \<and> (reconcile env d w = (res, w') \<and> js_get d ''id'' \<noteq> JStr k'
      \<longrightarrow> stored_field w' k' ''is_new'' = stored_field w k' ''is_new'')
   \<and> (handleSaveVideo env v w = (r, w1) \<and> success r \<and> js_get v ''id'' = JStr k
      \<longrightarrow> stored_field w1 k ''is_new'' = Some (js_get v ''is_new''))
   \<and> (handleSaveVideo env v w = (r, w1) \<and> js_get v ''id'' \<noteq> JStr k'
      \<longrightarrow> stored_field w1 k' ''is_new'' = stored_field w k' ''is_new'')"
proof (intro conjI impI)
  assume a: "reconcile env d w = (Inr b, w') \<and> js_get d ''id'' = JStr k"
  with reconcile_success [of env d w b w']
  have "rows w' = AList.update k (to_video d (clock env (ticks w))) (rows w)" by auto
  then show "stored_field w' k ''is_new'' = Some (js_get d ''is_new'')"
    by (simp add: stored_field_def map_of_update_same)
next
  assume "reconcile env d w = (res, w') \<and> js_get d ''id'' \<noteq> JStr k'"
  then show "stored_field w' k' ''is_new'' = stored_field w k' ''is_new''"
    using reconcile_other_rows [of env d w res w' k'] by (simp add: stored_field_def)
next
  assume a: "handleSaveVideo env v w = (r, w1) \<and> success r \<and> js_get v ''id'' = JStr k"
  with handleSaveVideo_rows [of env v w r w1] obtain rec
    where "rows w1 = AList.update k rec (rows w)"
      and "js_get (JObj rec) ''is_new'' = js_get v ''is_new''" by auto
  then show "stored_field w1 k ''is_new'' = Some (js_get v ''is_new'')"
    by (simp add: stored_field_def map_of_update_same)
next
  assume "handleSaveVideo env v w = (r, w1) \<and> js_get v ''id'' \<noteq> JStr k'"
  then show "stored_field w1 k' ''is_new'' = stored_field w k' ''is_new''"
    using handleSaveVideo_other_rows [of env v w r w1 k'] by (simp add: stored_field_def)
qed

theorem write_sets_is_new_from_payload_witness:
  "stored_field (snd (reconcile (clipboard_platform text_one) descriptor_a watched_store))
       ''a'' ''is_new'' = Some (JStr ''Yes'')
   \<and> stored_field (snd (reconcile (clipboard_platform text_one) descriptor_b watched_store))
       ''a'' ''is_new'' = Some (JStr ''No'')
   \<and> stored_field (snd (handleSaveVideo (clipboard_platform text_one) direct_payload
                          watched_store)) ''v1'' ''is_new''
       = Some JUndefined
   \<and> stored_field (snd (handleSaveVideo (clipboard_platform text_one) direct_payload
                          watched_store)) ''a'' ''is_new''
       = Some (JStr ''No'')"
proof -
  let ?E = "clipboard_platform text_one"
  let ?r = "fst (handleSaveVideo ?E direct_payload watched_store)"
  let ?w1 = "snd (handleSaveVideo ?E direct_payload watched_store)"
  have a: "reconcile ?E descriptor_a watched_store
             = (Inr True, snd (reconcile ?E descriptor_a watched_store))
           \<and> js_get descriptor_a ''id'' = JStr ''a''"
    by (simp add: reconcile_a_watched) (simp add: descriptor_a_def)
  have b: "reconcile ?E descriptor_b watched_store
             = (Inr False, snd (reconcile ?E descriptor_b watched_store))
           \<and> js_get descriptor_b ''id'' \<noteq> JStr ''a''"
    by (simp add: reconcile_b_watched) (simp add: descriptor_b_def)
  have c: "handleSaveVideo ?E direct_payload watched_store = (?r, ?w1) \<and> success ?r
           \<and> js_get direct_payload ''id'' = JStr ''v1''"
    by (simp add: save_direct_watched reply_def) (simp add: direct_payload_def)
  have c': "handleSaveVideo ?E direct_payload watched_store = (?r, ?w1)
           \<and> js_get direct_payload ''id'' \<noteq> JStr ''a''"
    by (simp add: direct_payload_def)
  have 1: "stored_field (snd (reconcile ?E descriptor_a watched_store)) ''a'' ''is_new''
             = Some (js_get descriptor_a ''is_new'')"
    using a write_sets_is_new_from_payload
         [where env = ?E and d = descriptor_a and w = watched_store and b = True
            and w' = "snd (reconcile ?E descriptor_a watched_store)" and k = "''a''"
            and res = "Inr True" and k' = "''b''" and v = direct_payload
            and r = ?r and ?w1.0 = ?w1]
    by blast
  have 3: "stored_field ?w1 ''v1'' ''is_new'' = Some (js_get direct_payload ''is_new'')"
    using c write_sets_is_new_from_payload
         [where env = ?E and d = descriptor_a and w = watched_store and b = True
            and w' = "snd (reconcile ?E descriptor_a watched_store)" and k = "''v1''"
            and res = "Inr True" and k' = "''b''" and v = direct_payload
            and r = ?r and ?w1.0 = ?w1]
    by blast
  have 2: "stored_field (snd (reconcile ?E descriptor_b watched_store)) ''a'' ''is_new''
             = stored_field watched_store ''a'' ''is_new''
           \<and> stored_field ?w1 ''a'' ''is_new'' = stored_field watched_store ''a'' ''is_new''"
    using b c' write_sets_is_new_from_payload
         [where env = ?E and d = descriptor_b and w = watched_store and b = False
            and w' = "snd (reconcile ?E descriptor_b watched_store)" and k = "''b''"
            and res = "Inr False" and k' = "''a''" and v = direct_payload
            and r = ?r and ?w1.0 = ?w1]
    by blast
  have d: "js_get descriptor_a ''is_new'' = JStr ''Yes''"
    "js_get direct_payload ''is_new'' = JUndefined"
    "stored_field watched_store ''a'' ''is_new'' = Some (JStr ''No'')"
    by (simp_all add: descriptor_a_def direct_payload_def stored_field_def watched_store_def)
  from 1 2 3 d show ?thesis by simp
qed

section \<open>A failing descriptor (C4)\<close>

text \<open>
  C4: a descriptor that fails does not keep the loop from the descriptors after it; of
  three descriptors whose second has no id, the first and the third are stored and the
  counts add up to 2. When the second descriptor is \<^verbatim>\<open>null\<close> the loop is left
  instead: the \<^verbatim>\<open>catch\<close> of the loop body reads \<^verbatim>\<open>playVideo.id\<close> for its log
  line, which throws again. The first descriptor is stored, the third is never looked at
  and the answer is the failure of the outermost \<^verbatim>\<open>catch\<close>, without counts.
\<close>

theorem null_descriptor_aborts_sync:
  "normalize parsed_null_second = [JObj [(''id'', JStr ''a'')], JNull, descriptor_b]
   \<and> fst (handleSyncVideos (clipboard_platform text_null_second) empty_store)
       = manual_paste
           (''Cannot read properties of null (reading '' @ [CHR 0x27] @ ''id'' @ [CHR 0x27] @ '')'')
   \<and> map fst (rows (snd (handleSyncVideos (clipboard_platform text_null_second) empty_store)))
       = [''a'']"
  by (simp add: sync_null_second_eval) (simp add: normalize_def parsed_null_second_def)

section \<open>Saving a video (C6)\<close>




section \<open>Running the sync twice (C3)\<close>




end
